theory Spec2Isabelle
  imports Complex_Main "HOL-Library.List_Lexorder"
begin

section \<open>Python strings\<close>

text \<open>
  A Python \<open>str\<close> is a sequence of Unicode code points; it is modelled as the list of
  its code points. \<open>str\<close> turns an Isabelle literal into such a list.
\<close>

type_synonym pystr = "nat list"

definition str :: "string \<Rightarrow> pystr" where
  "str s = map of_char s"

text \<open>
  The characters \<open>str.strip()\<close>, \<open>str.isspace()\<close> and the regular expression class
  \<open>\s\<close> treat as whitespace (CPython's \<open>Py_UNICODE_ISSPACE\<close>).
\<close>

definition isspace :: "nat \<Rightarrow> bool" where
  "isspace c =
     ((0x09 \<le> c \<and> c \<le> 0x0D) \<or> (0x1C \<le> c \<and> c \<le> 0x20) \<or> c = 0x85 \<or> c = 0xA0 \<or>
      c = 0x1680 \<or> (0x2000 \<le> c \<and> c \<le> 0x200A) \<or> c = 0x2028 \<or> c = 0x2029 \<or>
      c = 0x202F \<or> c = 0x205F \<or> c = 0x3000)"

text \<open>The line boundaries of \<open>str.splitlines()\<close> (CPython's \<open>Py_UNICODE_ISLINEBREAK\<close>).\<close>

definition islinebreak :: "nat \<Rightarrow> bool" where
  "islinebreak c =
     ((0x0A \<le> c \<and> c \<le> 0x0D) \<or> (0x1C \<le> c \<and> c \<le> 0x1E) \<or> c = 0x85 \<or>
      c = 0x2028 \<or> c = 0x2029)"

definition lstrip :: "pystr \<Rightarrow> pystr" where
  "lstrip s = dropWhile isspace s"

definition rstrip :: "pystr \<Rightarrow> pystr" where
  "rstrip s = rev (dropWhile isspace (rev s))"

definition strip :: "pystr \<Rightarrow> pystr" where
  "strip s = rstrip (lstrip s)"

text \<open>\<open>s.lstrip(chars)\<close> and \<open>s.strip(chars)\<close> with an explicit character set.\<close>

definition lstrip_chars :: "pystr \<Rightarrow> pystr \<Rightarrow> pystr" where
  "lstrip_chars chars s = dropWhile (\<lambda>c. c \<in> set chars) s"

definition strip_chars :: "pystr \<Rightarrow> pystr \<Rightarrow> pystr" where
  "strip_chars chars s =
     rev (dropWhile (\<lambda>c. c \<in> set chars) (rev (dropWhile (\<lambda>c. c \<in> set chars) s)))"

text \<open>
  \<open>s.split(sep, maxsplit)\<close> for a one-character separator: at most \<open>maxsplit\<close> cuts,
  from the left; the last part keeps every later separator.
\<close>

fun split_max :: "nat \<Rightarrow> nat \<Rightarrow> pystr \<Rightarrow> pystr list" where
  "split_max sep 0 s = [s]"
| "split_max sep (Suc n) s =
     (if sep \<in> set s
      then takeWhile (\<lambda>c. c \<noteq> sep) s # split_max sep n (tl (dropWhile (\<lambda>c. c \<noteq> sep) s))
      else [s])"

text \<open>\<open>s.split(sep)\<close> without a limit: one part more than there are separators.\<close>

fun split_all :: "nat \<Rightarrow> pystr \<Rightarrow> pystr list" where
  "split_all sep [] = [[]]"
| "split_all sep (c # cs) =
     (if c = sep then [] # split_all sep cs
      else (case split_all sep cs of [] \<Rightarrow> [[c]] | p # ps \<Rightarrow> (c # p) # ps))"

text \<open>\<open>sep.join(parts)\<close>.\<close>

fun join :: "pystr \<Rightarrow> pystr list \<Rightarrow> pystr" where
  "join sep [] = []"
| "join sep [p] = p"
| "join sep (p # q # ps) = p @ sep @ join sep (q # ps)"

text \<open>
  \<open>s.splitlines()\<close>: the lines of \<open>s\<close> without their terminators; \<open>\r\n\<close> is one
  terminator, and a terminator at the very end opens no further line.
\<close>

fun splitlines :: "pystr \<Rightarrow> pystr list" where
  "splitlines [] = []"
| "splitlines (c # cs) =
     (if islinebreak c then
        (case cs of
           [] \<Rightarrow> [[]]
         | d # ds \<Rightarrow> if c = 0x0D \<and> d = 0x0A then [] # splitlines ds else [] # splitlines cs)
      else (case splitlines cs of [] \<Rightarrow> [[c]] | l # ls \<Rightarrow> (c # l) # ls))"

text \<open>\<open>s.startswith(p)\<close> and the substring test \<open>p in s\<close>.\<close>

definition startswith :: "pystr \<Rightarrow> pystr \<Rightarrow> bool" where
  "startswith s p = (take (length p) s = p)"

fun contains_str :: "pystr \<Rightarrow> pystr \<Rightarrow> bool" where
  "contains_str [] p = (p = [])"
| "contains_str (c # cs) p = (startswith (c # cs) p \<or> contains_str cs p)"

text \<open>The decimal text of a natural number, as \<open>str(n)\<close> and an f-string print it.\<close>

fun str_nat :: "nat \<Rightarrow> pystr" where
  "str_nat n = (if n < 10 then [0x30 + n] else str_nat (n div 10) @ [0x30 + n mod 10])"

declare str_nat.simps [simp del]

definition zfill :: "nat \<Rightarrow> pystr \<Rightarrow> pystr" where
  "zfill width s = replicate (width - length s) 0x30 @ s"

section \<open>Exceptions, dates and values\<close>

text \<open>
  The exceptions the program can meet. \<open>EnvError\<close> stands for an exception raised by
  the outside world (the \<open>git\<close> subprocess, the HTTP library, the JSON decoder) and
  carries what the world says about it; all of them are subclasses of \<open>Exception\<close>.
\<close>

datatype py_error =
    ValueError | AttributeError | TypeError | KeyError | IndexError | EOFError | OverflowError
  | EnvError pystr

text \<open>A \<open>datetime.date\<close>; dates compare by year, then month, then day.\<close>

datatype pydate = Date (year: nat) (month: nat) (day: nat)

definition date_less :: "pydate \<Rightarrow> pydate \<Rightarrow> bool" where
  "date_less a b =
     (year a < year b \<or>
      (year a = year b \<and> (month a < month b \<or> (month a = month b \<and> day a < day b))))"

definition is_leap :: "nat \<Rightarrow> bool" where
  "is_leap y = (y mod 4 = 0 \<and> (y mod 100 \<noteq> 0 \<or> y mod 400 = 0))"

definition days_in_month :: "nat \<Rightarrow> nat \<Rightarrow> nat" where
  "days_in_month y m =
     (if m = 2 then (if is_leap y then 29 else 28)
      else if m = 4 \<or> m = 6 \<or> m = 9 \<or> m = 11 then 30 else 31)"

text \<open>\<open>d - datetime.timedelta(days=1)\<close>; below \<open>date.min\<close> it raises \<open>OverflowError\<close>.\<close>

definition yesterday_of :: "pydate \<Rightarrow> py_error + pydate" where
  "yesterday_of d =
     (if 1 < day d then Inr (Date (year d) (month d) (day d - 1))
      else if 1 < month d then Inr (Date (year d) (month d - 1) (days_in_month (year d) (month d - 1)))
      else if 1 < year d then Inr (Date (year d - 1) 12 31)
      else Inl OverflowError)"

text \<open>
  \<open>d.strftime('%Y-%m-%d')\<close> on a date: the year on four digits, the month and the day
  on two. (The C library of some platforms prints a year below 1000 without the
  leading zeros; nothing below depends on them.)
\<close>

definition strftime_ymd :: "pydate \<Rightarrow> pystr" where
  "strftime_ymd d =
     zfill 4 (str_nat (year d)) @ str ''-'' @ zfill 2 (str_nat (month d)) @ str ''-'' @
     zfill 2 (str_nat (day d))"

text \<open>
  What the top-level flow hands to \<open>analyze_commits\<close> as \<open>start_date\<close> and
  \<open>end_date\<close>: a date object or a string. Only a date has the method \<open>strftime\<close>;
  on a string the attribute lookup raises \<open>AttributeError\<close>.
\<close>

datatype pyval = DateV pydate | StrV pystr

definition strftime :: "pyval \<Rightarrow> py_error + pystr" where
  "strftime v = (case v of DateV d \<Rightarrow> Inr (strftime_ymd d) | StrV s \<Rightarrow> Inl AttributeError)"

text \<open>
  The functions of the Python library whose exact behaviour the program leaves to the
  interpreter are parameters of the model:
  \<^item> \<open>strptime\<close>: \<open>datetime.datetime.strptime(s, '%Y-%m-%d').date()\<close>, with \<open>None\<close> for
    the \<open>ValueError\<close> it raises on a text it does not accept;
  \<^item> \<open>int_of\<close>: \<open>int(s)\<close>, with \<open>None\<close> for its \<open>ValueError\<close>;
  \<^item> \<open>str_exc\<close>: the text \<open>str(e)\<close> of an exception, as an f-string prints it.
\<close>

record pylib =
  strptime :: "pystr \<Rightarrow> pydate option"
  int_of :: "pystr \<Rightarrow> int option"
  str_exc :: "py_error \<Rightarrow> pystr"

section \<open>JSON values\<close>

text \<open>
  What \<open>response.json()\<close> returns: \<open>None\<close>, a bool, a number, a string, a list or a
  dictionary with string keys (its items in order; a lookup finds a key's item).
  Numbers are kept by their value; the program only tests them for zero.
\<close>

datatype json =
    JNull | JBool bool | JNum real | JStr pystr | JArr "json list" | JObj "(pystr \<times> json) list"

text \<open>The truth value Python gives an object in a condition.\<close>

fun truthy :: "json \<Rightarrow> bool" where
  "truthy JNull = False"
| "truthy (JBool b) = b"
| "truthy (JNum x) = (x \<noteq> 0)"
| "truthy (JStr s) = (s \<noteq> [])"
| "truthy (JArr xs) = (xs \<noteq> [])"
| "truthy (JObj kvs) = (kvs \<noteq> [])"

text \<open>
  \<open>k in v\<close> for a string \<open>k\<close>: a key of a dictionary, an element of a list, a substring
  of a string; \<open>TypeError\<close> on \<open>None\<close>, a bool or a number.
\<close>

fun py_in :: "pystr \<Rightarrow> json \<Rightarrow> py_error + bool" where
  "py_in k (JObj kvs) = Inr (k \<in> set (map fst kvs))"
| "py_in k (JArr xs) = Inr (JStr k \<in> set xs)"
| "py_in k (JStr s) = Inr (contains_str s k)"
| "py_in k JNull = Inl TypeError"
| "py_in k (JBool b) = Inl TypeError"
| "py_in k (JNum x) = Inl TypeError"

text \<open>\<open>v[k]\<close> for a string \<open>k\<close>: only a dictionary can be subscripted by a string.\<close>

fun getitem_key :: "json \<Rightarrow> pystr \<Rightarrow> py_error + json" where
  "getitem_key (JObj kvs) k = (case map_of kvs k of None \<Rightarrow> Inl KeyError | Some v \<Rightarrow> Inr v)"
| "getitem_key JNull k = Inl TypeError"
| "getitem_key (JBool b) k = Inl TypeError"
| "getitem_key (JNum x) k = Inl TypeError"
| "getitem_key (JStr s) k = Inl TypeError"
| "getitem_key (JArr xs) k = Inl TypeError"

text \<open>
  \<open>v[0]\<close>: the first element of a list, the first character of a string (as a
  string), \<open>IndexError\<close> when they are empty; a dictionary of string keys has no key
  \<open>0\<close>; nothing else can be subscripted.
\<close>

fun getitem_0 :: "json \<Rightarrow> py_error + json" where
  "getitem_0 (JArr []) = Inl IndexError"
| "getitem_0 (JArr (x # xs)) = Inr x"
| "getitem_0 (JStr []) = Inl IndexError"
| "getitem_0 (JStr (c # cs)) = Inr (JStr [c])"
| "getitem_0 (JObj kvs) = Inl KeyError"
| "getitem_0 JNull = Inl TypeError"
| "getitem_0 (JBool b) = Inl TypeError"
| "getitem_0 (JNum x) = Inl TypeError"

text \<open>Sequencing of steps that may raise: the first exception ends the expression.\<close>

definition and_then :: "py_error + 'a \<Rightarrow> ('a \<Rightarrow> py_error + 'b) \<Rightarrow> py_error + 'b" where
  "and_then r f = (case r of Inl e \<Rightarrow> Inl e | Inr v \<Rightarrow> f v)"

section \<open>The world and the results of commands\<close>

text \<open>
  What a call of \<open>requests.post\<close> and the two calls after it come to:
  \<open>requests.post\<close> raises, \<open>raise_for_status\<close> raises, \<open>response.json()\<close> raises, or
  the body decodes to a JSON value.
\<close>

datatype http_outcome =
    PostRaised py_error | StatusRaised py_error | JsonRaised py_error | Body json

text \<open>
  The state the program reads and writes, and the outside world it calls:
  \<^item> \<open>stdin\<close>: the lines the operator will type (each \<open>input()\<close> takes one);
  \<^item> \<open>console\<close>: everything written to standard output so far;
  \<^item> \<open>files\<close>: the text files, by the path they are opened with; \<open>dirs\<close>: the
    directories; \<open>cwd\<close>: \<open>os.getcwd()\<close>; \<open>environ\<close>: \<open>os.environ\<close>;
  \<^item> \<open>today\<close>: \<open>datetime.date.today()\<close>;
  \<^item> \<open>git_log\<close>: what \<open>subprocess.run\<close> of the log command gives in a directory, its
    standard output or the exception it raises;
  \<^item> \<open>http_post\<close>: what the \<open>n\<close>-th request to the remote service comes to, given the
    prompt and the credential; \<open>http_calls\<close> counts the requests made.
  Failures of the operating system on file operations are not part of the model.
\<close>

record world =
  stdin :: "pystr list"
  console :: pystr
  files :: "pystr \<rightharpoonup> pystr"
  dirs :: "pystr set"
  cwd :: pystr
  environ :: "pystr \<rightharpoonup> pystr"
  today :: pydate
  git_log :: "pystr \<Rightarrow> py_error + pystr"
  http_post :: "nat \<Rightarrow> pystr \<Rightarrow> pystr \<Rightarrow> http_outcome"
  http_calls :: nat

text \<open>
  How a command ends: it returns a value, the process exits through \<open>sys.exit(n)\<close>, or
  an exception is on its way up. Each case carries the world it leaves.
\<close>

datatype 'a res = Return 'a world | Exit int world | Raise py_error world

definition res_bind :: "'a res \<Rightarrow> ('a \<Rightarrow> world \<Rightarrow> 'b res) \<Rightarrow> 'b res" where
  "res_bind m f = (case m of Return a w \<Rightarrow> f a w | Exit n w \<Rightarrow> Exit n w | Raise e w \<Rightarrow> Raise e w)"

text \<open>
  \<open>try: m except Exception as e: h\<close>. \<open>SystemExit\<close> is not an \<open>Exception\<close>, so an exit
  passes through.
\<close>

definition except_Exception :: "'a res \<Rightarrow> (py_error \<Rightarrow> world \<Rightarrow> 'a res) \<Rightarrow> 'a res" where
  "except_Exception m h = (case m of Raise e w \<Rightarrow> h e w | Return a w \<Rightarrow> Return a w | Exit n w \<Rightarrow> Exit n w)"

definition py_print :: "pystr \<Rightarrow> world \<Rightarrow> world" where
  "py_print s w = w\<lparr>console := console w @ s @ [0x0A]\<rparr>"

text \<open>\<open>input(prompt)\<close>: writes the prompt, reads a line; \<open>EOFError\<close> at the end of input.\<close>

definition py_input :: "pystr \<Rightarrow> world \<Rightarrow> pystr res" where
  "py_input prompt w =
     (case stdin w of
        [] \<Rightarrow> Raise EOFError (w\<lparr>console := console w @ prompt\<rparr>)
      | l # ls \<Rightarrow> Return l (w\<lparr>stdin := ls, console := console w @ prompt\<rparr>))"

text \<open>The lines a text file yields when iterated, each with its newline.\<close>

definition file_lines :: "pystr \<Rightarrow> pystr list" where
  "file_lines content =
     (let ps = split_all 0x0A content
      in map (\<lambda>p. p @ [0x0A]) (butlast ps) @ (if last ps = [] then [] else [last ps]))"

section \<open>Paths\<close>

definition os_path_join :: "pystr \<Rightarrow> pystr \<Rightarrow> pystr" where
  "os_path_join a b =
     (if startswith b (str ''/'') then b
      else if a = [] \<or> last a = 0x2F then a @ b
      else a @ str ''/'' @ b)"

definition os_path_basename :: "pystr \<Rightarrow> pystr" where
  "os_path_basename p = rev (takeWhile (\<lambda>c. c \<noteq> 0x2F) (rev p))"

definition normpath_step :: "nat \<Rightarrow> pystr list \<Rightarrow> pystr \<Rightarrow> pystr list" where
  "normpath_step initial_slashes new_comps part =
     (if part = [] \<or> part = str ''.'' then new_comps
      else if part \<noteq> str ''..'' \<or> (initial_slashes = 0 \<and> new_comps = []) \<or>
              (new_comps \<noteq> [] \<and> last new_comps = str ''..'')
      then new_comps @ [part]
      else if new_comps \<noteq> [] then butlast new_comps
      else new_comps)"

definition os_path_normpath :: "pystr \<Rightarrow> pystr" where
  "os_path_normpath path =
     (if path = [] then str ''.''
      else
        let initial_slashes =
              (if startswith path (str ''/'')
               then (if startswith path (str ''//'') \<and> \<not> startswith path (str ''///'') then 2 else 1)
               else 0);
            comps = foldl (normpath_step initial_slashes) [] (split_all 0x2F path);
            p = replicate initial_slashes 0x2F @ join (str ''/'') comps
        in if p = [] then str ''.'' else p)"

definition os_path_abspath :: "world \<Rightarrow> pystr \<Rightarrow> pystr" where
  "os_path_abspath w path =
     os_path_normpath (if startswith path (str ''/'') then path else os_path_join (cwd w) path)"

definition REPO_LIST_FILE :: pystr where
  "REPO_LIST_FILE = str ''repos.txt''"

definition REPORTS_DIR :: pystr where
  "REPORTS_DIR = str ''reports''"

section \<open>Credential lookup\<close>

text \<open>
  The loop of \<open>load_dotenv_key\<close> over the lines of the \<open>.env\<close> file. An exception in
  it is swallowed and the function returns \<open>None\<close>.
\<close>

fun load_dotenv_loop :: "pystr \<Rightarrow> pystr list \<Rightarrow> pystr option" where
  "load_dotenv_loop key_name [] = None"
| "load_dotenv_loop key_name (line # lines) =
     (if startswith (strip line) (str ''#'') \<or> 0x3D \<notin> set line then load_dotenv_loop key_name lines
      else (case split_max 0x3D 1 (strip line) of
              [k, v] \<Rightarrow>
                if strip k = key_name
                then Some (strip_chars [0x27] (strip_chars [0x22] (strip v)))
                else load_dotenv_loop key_name lines
            | _ \<Rightarrow> None))"

definition load_dotenv_key :: "world \<Rightarrow> pystr \<Rightarrow> pystr option" where
  "load_dotenv_key w key_name =
     (case files w (os_path_join (cwd w) (str ''.env'')) of
        None \<Rightarrow> None
      | Some content \<Rightarrow> load_dotenv_loop key_name (file_lines content))"

section \<open>The commit source\<close>

text \<open>A commit is the dictionary \<open>{'hash': .., 'date': .., 'message': ..}\<close>.\<close>

record commit =
  hash :: pystr
  date :: pystr
  message :: pystr

text \<open>
  The loop of \<open>fetch_commits\<close> over the lines of the log, with the list \<open>commits\<close>
  it appends to: a blank line is skipped, a line is cut at its first two \<open>|\<close>, and
  kept when that gives three parts.
\<close>

fun fetch_commits_loop :: "pystr list \<Rightarrow> commit list \<Rightarrow> commit list" where
  "fetch_commits_loop [] commits = commits"
| "fetch_commits_loop (line # lines) commits =
     (if strip line = [] then fetch_commits_loop lines commits
      else (case split_max 0x7C 2 line of
              [commit_hash, d, m] \<Rightarrow>
                fetch_commits_loop lines (commits @ [\<lparr>hash = commit_hash, date = d, message = m\<rparr>])
            | _ \<Rightarrow> fetch_commits_loop lines commits))"

text \<open>
  The three fields the specification speaks of, for a line with at least two
  delimiters: the text before the first \<open>|\<close>, the text between the first and the
  second, and everything after the second.
\<close>

definition fields_of_line :: "pystr \<Rightarrow> commit" where
  "fields_of_line l =
     (let r1 = tl (dropWhile (\<lambda>c. c \<noteq> 0x7C) l);
          r2 = tl (dropWhile (\<lambda>c. c \<noteq> 0x7C) r1)
      in \<lparr>hash = takeWhile (\<lambda>c. c \<noteq> 0x7C) l, date = takeWhile (\<lambda>c. c \<noteq> 0x7C) r1, message = r2\<rparr>)"

text \<open>
  \<open>fetch_commits\<close>: the log of the repository (of the working directory when no path
  is given). Any exception of the subprocess is reported and gives the empty list.
\<close>

definition fetch_commits :: "pylib \<Rightarrow> world \<Rightarrow> pystr \<Rightarrow> commit list res" where
  "fetch_commits L w repo_path =
     (case git_log w (if repo_path \<noteq> [] then repo_path else cwd w) of
        Inr stdout \<Rightarrow> Return (fetch_commits_loop (split_all 0x0A (strip stdout)) []) w
      | Inl e \<Rightarrow> Return [] (py_print (str ''Error fetching git log: '' @ str_exc L e) w))"

section \<open>Grouping and filtering\<close>

text \<open>
  \<open>grouped[k].append(v)\<close> on a \<open>defaultdict(list)\<close>, kept as the list of its items in
  insertion order: a new key is added at the end with the one-element list.
\<close>

fun dict_append :: "('k \<times> 'v list) list \<Rightarrow> 'k \<Rightarrow> 'v \<Rightarrow> ('k \<times> 'v list) list" where
  "dict_append [] k v = [(k, [v])]"
| "dict_append ((k', vs) # g) k v =
     (if k' = k then (k', vs @ [v]) # g else (k', vs) # dict_append g k v)"

definition group_commits_by_date :: "commit list \<Rightarrow> (pystr \<times> pystr list) list" where
  "group_commits_by_date commits = foldl (\<lambda>grouped c. dict_append grouped (date c) (message c)) [] commits"

text \<open>
  The loop of \<open>filter_commits\<close> with the list \<open>filtered\<close> it appends to. Each commit's
  date is parsed first, whatever the bounds; a bound that is \<open>None\<close> is false in the
  condition, a date object is true.
\<close>

fun filter_commits_loop ::
  "(pystr \<Rightarrow> pydate option) \<Rightarrow> commit list \<Rightarrow> pydate option \<Rightarrow> pydate option \<Rightarrow> commit list
     \<Rightarrow> py_error + commit list" where
  "filter_commits_loop parse [] start_date end_date filtered = Inr filtered"
| "filter_commits_loop parse (c # cs) start_date end_date filtered =
     (case parse (date c) of
        None \<Rightarrow> Inl ValueError
      | Some commit_date \<Rightarrow>
          if (case start_date of None \<Rightarrow> False | Some s \<Rightarrow> date_less commit_date s)
          then filter_commits_loop parse cs start_date end_date filtered
          else if (case end_date of None \<Rightarrow> False | Some e \<Rightarrow> date_less e commit_date)
          then filter_commits_loop parse cs start_date end_date filtered
          else filter_commits_loop parse cs start_date end_date (filtered @ [c]))"

definition filter_commits ::
  "(pystr \<Rightarrow> pydate option) \<Rightarrow> commit list \<Rightarrow> pydate option \<Rightarrow> pydate option
     \<Rightarrow> py_error + commit list" where
  "filter_commits parse commits start_date end_date =
     filter_commits_loop parse commits start_date end_date []"

section \<open>The summarizer client\<close>

definition no_summary :: pystr where
  "no_summary = str ''[No summary returned by Gemini API]''"

definition api_error :: "pystr \<Rightarrow> pystr" where
  "api_error reason = str ''[Gemini API error: '' @ reason @ str '']''"

text \<open>
  What the \<open>try\<close> block does with the decoded body: it returns the text of the first
  candidate's first part when \<open>candidates\<close> is there and true, the fixed string
  otherwise; every subscript can raise.
\<close>

definition read_summary :: "json \<Rightarrow> py_error + json" where
  "read_summary result =
     and_then (py_in (str ''candidates'') result) (\<lambda>has.
       if \<not> has then Inr (JStr no_summary)
       else and_then (getitem_key result (str ''candidates'')) (\<lambda>candidates.
         if \<not> truthy candidates then Inr (JStr no_summary)
         else and_then (getitem_0 candidates) (\<lambda>c0.
              and_then (getitem_key c0 (str ''content'')) (\<lambda>content.
              and_then (getitem_key content (str ''parts'')) (\<lambda>parts.
              and_then (getitem_0 parts) (\<lambda>p0.
              getitem_key p0 (str ''text'')))))))"

definition gemini_prompt :: "pystr list \<Rightarrow> pystr" where
  "gemini_prompt messages =
     str ''Summarize the following git commit messages as a daily work report, focusing on tasks completed. Messages: ''
       @ join [0x0A] messages"

text \<open>The \<open>try\<close> block of \<open>summarize_with_gemini\<close>: one request, then the reading.\<close>

definition gemini_request :: "world \<Rightarrow> pystr list \<Rightarrow> pystr \<Rightarrow> json res" where
  "gemini_request w messages api_key =
     (let w' = w\<lparr>http_calls := Suc (http_calls w)\<rparr>
      in case http_post w (http_calls w) (gemini_prompt messages) api_key of
           PostRaised e \<Rightarrow> Raise e w'
         | StatusRaised e \<Rightarrow> Raise e w'
         | JsonRaised e \<Rightarrow> Raise e w'
         | Body result \<Rightarrow> (case read_summary result of Inl e \<Rightarrow> Raise e w' | Inr v \<Rightarrow> Return v w'))"

definition summarize_with_gemini :: "pylib \<Rightarrow> world \<Rightarrow> pystr list \<Rightarrow> pystr \<Rightarrow> json res" where
  "summarize_with_gemini L w messages api_key =
     except_Exception (gemini_request w messages api_key)
       (\<lambda>e w'. Return (JStr (api_error (str_exc L e))) w')"

section \<open>Point extraction\<close>

text \<open>
  The truth of \<open>re.match(r'^[*-]\s+', line)\<close>: a first character \<open>*\<close> or \<open>-\<close>, then
  one or more whitespace characters.
\<close>

definition re_match_bullet :: "pystr \<Rightarrow> bool" where
  "re_match_bullet line =
     (case line of [] \<Rightarrow> False | c # rest \<Rightarrow> (c = 0x2A \<or> c = 0x2D) \<and> takeWhile isspace rest \<noteq> [])"

fun extract_loop :: "pystr list \<Rightarrow> pystr list \<Rightarrow> pystr list" where
  "extract_loop [] points = points"
| "extract_loop (line0 # lines) points =
     (let line = strip line0
      in if re_match_bullet line
         then extract_loop lines (points @ [strip (lstrip_chars (str ''*-'') line)])
         else extract_loop lines points)"

definition extract_task_points :: "pystr \<Rightarrow> pystr list" where
  "extract_task_points summary =
     (let points = extract_loop (splitlines summary) []
      in if points = [] \<and> strip summary \<noteq> [] then [strip summary] else points)"

section \<open>The report writer\<close>

text \<open>
  The loop of \<open>analyze_commits\<close> over the sorted dates, with the lists
  \<open>output_lines\<close> and \<open>all_points\<close> it extends. A date missing from the
  \<open>defaultdict\<close> reads as the empty list. A summary that is not a string has no
  \<open>splitlines\<close>: \<open>extract_task_points\<close> raises \<open>AttributeError\<close> on it, and the lines
  built from it are lost with the local list.
\<close>

fun analyze_loop ::
  "pylib \<Rightarrow> (pystr \<times> pystr list) list \<Rightarrow> pystr \<Rightarrow> pystr list \<Rightarrow> pystr list \<Rightarrow> pystr list \<Rightarrow> world
     \<Rightarrow> (pystr list \<times> pystr list) res" where
  "analyze_loop L grouped api_key [] output_lines all_points w = Return (output_lines, all_points) w"
| "analyze_loop L grouped api_key (d # ds) output_lines all_points w =
     (let messages = (case map_of grouped d of None \<Rightarrow> [] | Some ms \<Rightarrow> ms)
      in case summarize_with_gemini L w messages api_key of
           Return (JStr summary) w' \<Rightarrow>
             analyze_loop L grouped api_key ds
               (output_lines @ [str ''## Date: '' @ d, str ''**Summary:** '' @ summary @ [0x0A],
                                str ''**Messages:**''] @ map (\<lambda>msg. str ''- '' @ msg) messages @ [[]])
               (all_points @ extract_task_points summary) w'
         | Return _ w' \<Rightarrow> Raise AttributeError w'
         | Exit n w' \<Rightarrow> Exit n w'
         | Raise e w' \<Rightarrow> Raise e w')"

text \<open>The label of the report: one date, or \<open>start_to_end\<close>.\<close>

definition date_label :: "pyval \<Rightarrow> pyval \<Rightarrow> py_error + pystr" where
  "date_label start_date end_date =
     (if start_date = end_date then strftime start_date
      else and_then (strftime start_date) (\<lambda>s.
           and_then (strftime end_date) (\<lambda>e. Inr (s @ str ''_to_'' @ e))))"

definition analyze_commits ::
  "pylib \<Rightarrow> world \<Rightarrow> commit list \<Rightarrow> pystr \<Rightarrow> pystr \<Rightarrow> pyval \<Rightarrow> pyval \<Rightarrow> unit res" where
  "analyze_commits L w commits api_key repo_path start_date end_date =
     (let grouped = group_commits_by_date commits;
          repo_name = os_path_basename (os_path_abspath w repo_path)
      in case date_label start_date end_date of
           Inl e \<Rightarrow> Raise e w
         | Inr date_str \<Rightarrow>
             (let report_folder = os_path_join REPORTS_DIR repo_name;
                  w1 = w\<lparr>dirs := dirs w \<union> {REPORTS_DIR, report_folder}\<rparr>;
                  report_file = os_path_join report_folder (date_str @ str ''.md'');
                  output_lines = [str ''# Work Summary for '' @ repo_name @ str '' ('' @ date_str @ str '')'' @ [0x0A]]
              in res_bind (analyze_loop L grouped api_key (sort (map fst grouped)) output_lines [] w1)
                   (\<lambda>(output_lines, all_points) w2.
                      Return ()
                        (foldl (\<lambda>w point. py_print (str ''- '' @ point) w)
                           (w2\<lparr>files := (files w2)(report_file \<mapsto> join [0x0A] output_lines)\<rparr>)
                           all_points))))"

section \<open>Repository paths and prompts\<close>

definition load_repo_paths :: "world \<Rightarrow> pystr list" where
  "load_repo_paths w =
     (case files w REPO_LIST_FILE of
        None \<Rightarrow> []
      | Some content \<Rightarrow> map strip (filter (\<lambda>line. strip line \<noteq> []) (file_lines content)))"

definition save_repo_path :: "world \<Rightarrow> pystr \<Rightarrow> world" where
  "save_repo_path w path =
     (if path \<in> set (load_repo_paths w) then w
      else w\<lparr>files := (files w)(REPO_LIST_FILE \<mapsto>
                (case files w REPO_LIST_FILE of None \<Rightarrow> [] | Some content \<Rightarrow> content) @ path @ [0x0A])\<rparr>)"

text \<open>What both branches of \<open>prompt_repo_path\<close> do with the path the operator typed.\<close>

definition new_repo_path :: "world \<Rightarrow> pystr \<Rightarrow> pystr res" where
  "new_repo_path w new_path =
     (if new_path \<in> dirs w then Return new_path (save_repo_path w new_path)
      else Exit 1 (py_print (str ''Invalid directory path.'') w))"

definition prompt_repo_path :: "pylib \<Rightarrow> world \<Rightarrow> pystr res" where
  "prompt_repo_path L w =
     (let paths = load_repo_paths w
      in if paths \<noteq> [] then
           (let w1 = py_print (str ''Select a repo path:'') w;
                w2 = foldl (\<lambda>w (idx, p). py_print (str_nat idx @ str ''. '' @ p) w) w1
                       (zip [1 ..< Suc (length paths)] paths);
                w3 = py_print (str_nat (length paths + 1) @ str ''. Add new repo path'') w2
            in res_bind
                 (py_input (str ''Enter choice (1-'' @ str_nat (length paths + 1) @ str ''): '') w3)
                 (\<lambda>choice w4.
                    case int_of L (strip choice) of
                      None \<Rightarrow> Exit 1 (py_print (str ''Invalid input.'') w4)
                    | Some n \<Rightarrow>
                        if 1 \<le> n \<and> n \<le> int (length paths) then Return (paths ! nat (n - 1)) w4
                        else if n = int (length paths) + 1 then
                          except_Exception
                            (res_bind (py_input (str ''Enter new repo path: '') w4)
                               (\<lambda>new_path w5. new_repo_path w5 (strip new_path)))
                            (\<lambda>e w5. Exit 1 (py_print (str ''Invalid input.'') w5))
                        else Exit 1 (py_print (str ''Invalid choice.'') w4)))
         else res_bind (py_input (str ''Enter new repo path: '') w)
                (\<lambda>new_path w1. new_repo_path w1 (strip new_path)))"

text \<open>The dates \<open>prompt_user\<close> derives from the analysis type the operator chose.\<close>

definition prompt_dates :: "pylib \<Rightarrow> pystr \<Rightarrow> world \<Rightarrow> (pydate option \<times> pydate option) res" where
  "prompt_dates L choice w =
     (if choice = str ''2'' then
        res_bind (py_input (str ''Enter date (YYYY-MM-DD): '') w) (\<lambda>date_str w1.
          case strptime L (strip date_str) of
            None \<Rightarrow> Exit 1 (py_print (str ''Invalid date format.'') w1)
          | Some d \<Rightarrow> Return (Some d, Some d) w1)
      else if choice = str ''3'' then
        res_bind (py_input (str ''Enter start date (YYYY-MM-DD): '') w) (\<lambda>start_str w1.
        res_bind (py_input (str ''Enter end date (YYYY-MM-DD): '') w1) (\<lambda>end_str w2.
          case strptime L (strip start_str) of
            None \<Rightarrow> Exit 1 (py_print (str ''Invalid date format.'') w2)
          | Some s \<Rightarrow>
              (case strptime L (strip end_str) of
                 None \<Rightarrow> Exit 1 (py_print (str ''Invalid date format.'') w2)
               | Some e \<Rightarrow> Return (Some s, Some e) w2)))
      else if choice = str ''4'' then Return (Some (today w), Some (today w)) w
      else if choice = str ''5'' then
        (case yesterday_of (today w) of
           Inl e \<Rightarrow> Raise e w
         | Inr yesterday \<Rightarrow> Return (Some yesterday, Some yesterday) w)
      else Return (None, None) w)"

text \<open>The credential: the \<open>.env\<close> file, then the environment, then the operator.\<close>

definition prompt_api_key :: "world \<Rightarrow> pystr res" where
  "prompt_api_key w =
     (let key_name = str ''GEMINI_API_KEY'';
          k1 = load_dotenv_key w key_name;
          k2 = (if k1 = None \<or> k1 = Some [] then environ w key_name else k1)
      in case k2 of
           Some (c # cs) \<Rightarrow> Return (c # cs) w
         | _ \<Rightarrow>
             res_bind (py_input (str ''Enter Gemini API key (or set GEMINI_API_KEY env): '') w)
               (\<lambda>typed w1.
                  if strip typed = []
                  then Exit 1 (py_print (str ''Gemini API key required for smart summary.'') w1)
                  else Return (strip typed) w1))"

definition prompt_user ::
  "pylib \<Rightarrow> world \<Rightarrow> (pystr \<times> pydate option \<times> pydate option \<times> pystr) res" where
  "prompt_user L w =
     res_bind (prompt_repo_path L w) (\<lambda>repo_path w1.
       let w2 = foldl (\<lambda>w s. py_print s w) w1
                  [str ''Select analysis type:'', str ''1. All history'', str ''2. Specific date'',
                   str ''3. Date range'', str ''4. Today'', str ''5. Yesterday'']
       in res_bind (py_input (str ''Enter choice (1/2/3/4/5): '') w2) (\<lambda>choice w3.
          res_bind (prompt_dates L (strip choice) w3) (\<lambda>(start_date, end_date) w4.
          res_bind (prompt_api_key w4) (\<lambda>api_key w5.
            Return (repo_path, start_date, end_date, api_key) w5))))"

section \<open>The top-level flow\<close>

text \<open>
  The script body. A bound the operator did not give is replaced by the date string
  of the first, respectively the last, filtered commit. An exception that reaches
  the top ends the process.
\<close>

definition main :: "pylib \<Rightarrow> world \<Rightarrow> unit res" where
  "main L w =
     res_bind (prompt_user L w) (\<lambda>(repo_path, start_date, end_date, api_key) w1.
     res_bind (fetch_commits L w1 repo_path) (\<lambda>commits w2.
       if commits = [] then Exit 1 (py_print (str ''No commits found.'') w2)
       else
         (case filter_commits (strptime L) commits start_date end_date of
            Inl e \<Rightarrow> Raise e w2
          | Inr filtered_commits \<Rightarrow>
              if filtered_commits = []
              then Exit 0 (py_print (str ''No commits found for the specified date or range.'') w2)
              else analyze_commits L w2 filtered_commits api_key repo_path
                     (case start_date of Some d \<Rightarrow> DateV d | None \<Rightarrow> StrV (date (hd filtered_commits)))
                     (case end_date of Some d \<Rightarrow> DateV d | None \<Rightarrow> StrV (date (last filtered_commits))))))"

section \<open>The words of the specification\<close>

text \<open>
  The notions the specification states its properties with, written after its words;
  the theorems below compare the program with them.
\<close>


text \<open>
  A line with a bullet or dash prefix: a \<open>*\<close> or a \<open>-\<close> followed by a whitespace
  character.
\<close>

definition has_bullet_prefix :: "pystr \<Rightarrow> bool" where
  "has_bullet_prefix l =
     (case l of c # d # rest \<Rightarrow> (c = 0x2A \<or> c = 0x2D) \<and> isspace d | _ \<Rightarrow> False)"




section \<open>Auxiliary notions\<close>





section \<open>Sample inputs\<close>

text \<open>
  Concrete inputs on which the model is run below. \<open>sample_lib\<close> is one possible
  interpreter: its \<open>strptime\<close> accepts the zero-padded form \<open>YYYY-MM-DD\<close> of a real
  calendar day (a part of what the library accepts), its \<open>int\<close> the plain decimal
  numbers, and its \<open>str(e)\<close> prints what the world said about an exception of the
  world's. The general theorems hold for every interpreter.
\<close>

definition isdigit :: "nat \<Rightarrow> bool" where
  "isdigit c = (0x30 \<le> c \<and> c \<le> 0x39)"

definition decimal :: "pystr \<Rightarrow> nat" where
  "decimal s = foldl (\<lambda>n c. 10 * n + (c - 0x30)) 0 s"

definition sample_strptime :: "pystr \<Rightarrow> pydate option" where
  "sample_strptime s =
     (if length s = 10 \<and> s ! 4 = 0x2D \<and> s ! 7 = 0x2D \<and>
         list_all isdigit (take 4 s @ take 2 (drop 5 s) @ drop 8 s)
      then (let y = decimal (take 4 s); m = decimal (take 2 (drop 5 s)); d = decimal (drop 8 s)
            in if 1 \<le> y \<and> 1 \<le> m \<and> m \<le> 12 \<and> 1 \<le> d \<and> d \<le> days_in_month y m
               then Some (Date y m d) else None)
      else None)"

definition sample_int_of :: "pystr \<Rightarrow> int option" where
  "sample_int_of s = (if s \<noteq> [] \<and> list_all isdigit s then Some (int (decimal s)) else None)"

definition sample_str_exc :: "py_error \<Rightarrow> pystr" where
  "sample_str_exc e = (case e of EnvError reason \<Rightarrow> reason | _ \<Rightarrow> str ''error'')"

definition sample_lib :: pylib where
  "sample_lib = \<lparr>strptime = sample_strptime, int_of = sample_int_of, str_exc = sample_str_exc\<rparr>"

text \<open>
  A world with one directory \<open>/home/dev/project\<close>, no remembered repository, no
  \<open>.env\<close> file and the credential in the environment. Its parameters are what the
  operator types, what the log command gives in the project directory, and what the
  \<open>n\<close>-th request to the remote service comes to.
\<close>

definition sample_world :: "pystr list \<Rightarrow> py_error + pystr \<Rightarrow> (nat \<Rightarrow> http_outcome) \<Rightarrow> world" where
  "sample_world typed log_result answers =
     \<lparr>stdin = typed,
      console = [],
      files = Map.empty,
      dirs = {str ''/home/dev/project'', str ''/''},
      cwd = str ''/home/dev'',
      environ = [str ''GEMINI_API_KEY'' \<mapsto> str ''secret''],
      today = Date 2024 1 3,
      git_log = (\<lambda>dir. if dir = str ''/home/dev/project'' \<or> dir = str ''/'' then log_result
                       else Inl (EnvError (str ''not a git repository''))),
      http_post = (\<lambda>n prompt api_key. answers n),
      http_calls = 0\<rparr>"

definition sample_log :: pystr where
  "sample_log = str ''a1|2024-01-02|Add parser'' @ [0x0A] @ str ''b2|2024-01-01|Fix bug'' @ [0x0A] @
                str ''c3|2024-01-02|Write docs'' @ [0x0A]"

definition sample_commits :: "commit list" where
  "sample_commits =
     [\<lparr>hash = str ''a1'', date = str ''2024-01-02'', message = str ''Add parser''\<rparr>,
      \<lparr>hash = str ''b2'', date = str ''2024-01-01'', message = str ''Fix bug''\<rparr>,
      \<lparr>hash = str ''c3'', date = str ''2024-01-02'', message = str ''Write docs''\<rparr>]"

definition refused :: "nat \<Rightarrow> http_outcome" where
  "refused n = PostRaised (EnvError (str ''connection refused''))"


section \<open>Properties of the commit parser\<close>

lemma count_after_sep:
  "sep \<in> set s \<Longrightarrow> count_list (tl (dropWhile (\<lambda>c. c \<noteq> sep) s)) sep = count_list s sep - 1"
  by (induction s) auto

lemma sep_in_set_iff: "sep \<in> set s \<longleftrightarrow> 0 < count_list s sep"
  using count_list_0_iff [of s sep] by auto

lemma split_max_two:
  "split_max sep 2 s =
     (let r1 = tl (dropWhile (\<lambda>c. c \<noteq> sep) s); r2 = tl (dropWhile (\<lambda>c. c \<noteq> sep) r1)
      in if 2 \<le> count_list s sep
         then [takeWhile (\<lambda>c. c \<noteq> sep) s, takeWhile (\<lambda>c. c \<noteq> sep) r1, r2]
         else if count_list s sep = 1 then [takeWhile (\<lambda>c. c \<noteq> sep) s, r1] else [s])"
proof -
  have two: "(2::nat) = Suc (Suc 0)" by simp
  show ?thesis
    unfolding two by (auto simp: Let_def sep_in_set_iff count_after_sep)
qed

lemma strip_nil_iff: "strip s = [] \<longleftrightarrow> (\<forall>c\<in>set s. isspace c)"
proof
  assume "strip s = []"
  then have a: "\<forall>c\<in>set (dropWhile isspace s). isspace c"
    by (simp add: strip_def rstrip_def lstrip_def)
  have "dropWhile isspace s = []"
  proof (rule ccontr)
    assume n: "dropWhile isspace s \<noteq> []"
    then have "\<not> isspace (hd (dropWhile isspace s))" by (rule hd_dropWhile)
    moreover have "hd (dropWhile isspace s) \<in> set (dropWhile isspace s)" using n by simp
    ultimately show False using a by blast
  qed
  then show "\<forall>c\<in>set s. isspace c" by simp
next
  assume "\<forall>c\<in>set s. isspace c"
  then have d: "dropWhile isspace s = []" by simp
  show "strip s = []"
    by (simp only: strip_def rstrip_def lstrip_def d rev.simps dropWhile.simps)
qed

lemma blank_has_no_pipe: "strip l = [] \<Longrightarrow> count_list l 0x7C = 0"
proof -
  assume "strip l = []"
  then have "\<forall>c\<in>set l. isspace c" by (simp add: strip_nil_iff)
  moreover have "\<not> isspace 0x7C" by (simp add: isspace_def)
  ultimately have "0x7C \<notin> set l" by blast
  then show ?thesis by simp
qed

lemma fetch_commits_loop_acc:
  "fetch_commits_loop ls acc = acc @ fetch_commits_loop ls []"
proof (induction ls arbitrary: acc)
  case Nil
  show ?case by simp
next
  case (Cons l ls)
  show ?case
    using Cons.IH [of acc] Cons.IH [of "acc @ [fields_of_line l]"] Cons.IH [of "[fields_of_line l]"]
    by (auto simp: split_max_two fields_of_line_def Let_def)
qed

lemma fetch_commits_loop_Cons:
  "fetch_commits_loop (l # ls) [] =
     (if 2 \<le> count_list l 0x7C then [fields_of_line l] else []) @ fetch_commits_loop ls []"
proof (cases "strip l = []")
  case True
  then show ?thesis using blank_has_no_pipe [of l] by simp
next
  case False
  then show ?thesis
    using fetch_commits_loop_acc [of ls "[fields_of_line l]"]
    by (auto simp: split_max_two fields_of_line_def Let_def)
qed

lemma fetch_commits_loop_eq:
  "fetch_commits_loop ls [] = map fields_of_line (filter (\<lambda>l. 2 \<le> count_list l 0x7C) ls)"
  by (induction ls) (simp_all add: fetch_commits_loop_Cons del: fetch_commits_loop.simps(2))







section \<open>Properties of grouping\<close>

lemma map_of_dict_append:
  "map_of (dict_append g k v) k' =
     (if k' = k then Some ((case map_of g k of None \<Rightarrow> [] | Some vs \<Rightarrow> vs) @ [v]) else map_of g k')"
  by (induction g k v rule: dict_append.induct) auto

lemma keys_dict_append:
  "map fst (dict_append g k v) = (if k \<in> set (map fst g) then map fst g else map fst g @ [k])"
  by (induction g k v rule: dict_append.induct) auto

lemma map_of_group_fold:
  "map_of (foldl (\<lambda>grouped c. dict_append grouped (date c) (message c)) g cs) d =
     (if d \<in> set (map date cs) \<or> d \<in> set (map fst g)
      then Some ((case map_of g d of None \<Rightarrow> [] | Some vs \<Rightarrow> vs) @ map message (filter (\<lambda>c. date c = d) cs))
      else None)"
proof (induction cs arbitrary: g)
  case Nil
  show ?case
    by (cases "map_of g d") (auto simp: map_of_eq_None_iff dest: map_of_SomeD intro: rev_image_eqI)
next
  case (Cons c cs)
  show ?case
    unfolding foldl_Cons Cons.IH
    by (auto simp: map_of_dict_append keys_dict_append split: option.splits)
qed

lemma keys_group_fold:
  "distinct (map fst g) \<Longrightarrow>
   distinct (map fst (foldl (\<lambda>grouped c. dict_append grouped (date c) (message c)) g cs)) \<and>
   set (map fst (foldl (\<lambda>grouped c. dict_append grouped (date c) (message c)) g cs)) =
     set (map fst g) \<union> set (map date cs)"
proof (induction cs arbitrary: g)
  case Nil
  then show ?case by simp
next
  case (Cons c cs)
  have "distinct (map fst (dict_append g (date c) (message c)))"
    using Cons.prems by (simp add: keys_dict_append)
  from Cons.IH [OF this] show ?case
    by (auto simp: keys_dict_append split: if_splits)
qed

text \<open>
  C5. Grouping is stable: each date's group lists that date's messages in input order,
  the keys are the dates that occur, each once; for commits dated 2024-01-02,
  2024-01-01, 2024-01-02 the result has exactly two keys and the group of 2024-01-02
  holds its two messages in the order of the input.
\<close>

theorem grouping_is_stable:
  "map_of (group_commits_by_date commits) d =
     (if d \<in> set (map date commits) then Some (map message (filter (\<lambda>c. date c = d) commits)) else None) \<and>
   distinct (map fst (group_commits_by_date commits)) \<and>
   set (map fst (group_commits_by_date commits)) = set (map date commits) \<and>
   group_commits_by_date
     [\<lparr>hash = h1, date = str ''2024-01-02'', message = m1\<rparr>,
      \<lparr>hash = h2, date = str ''2024-01-01'', message = m2\<rparr>,
      \<lparr>hash = h3, date = str ''2024-01-02'', message = m3\<rparr>] =
     [(str ''2024-01-02'', [m1, m3]), (str ''2024-01-01'', [m2])]"
proof -
  have a: "map_of (group_commits_by_date commits) d =
     (if d \<in> set (map date commits) then Some (map message (filter (\<lambda>c. date c = d) commits)) else None)"
    unfolding group_commits_by_date_def map_of_group_fold by simp
  have b: "distinct (map fst (group_commits_by_date commits)) \<and>
           set (map fst (group_commits_by_date commits)) = set (map date commits)"
    unfolding group_commits_by_date_def using keys_group_fold [of "[]" commits] by simp
  have c: "group_commits_by_date
     [\<lparr>hash = h1, date = str ''2024-01-02'', message = m1\<rparr>,
      \<lparr>hash = h2, date = str ''2024-01-01'', message = m2\<rparr>,
      \<lparr>hash = h3, date = str ''2024-01-02'', message = m3\<rparr>] =
     [(str ''2024-01-02'', [m1, m3]), (str ''2024-01-01'', [m2])]"
    by (simp add: group_commits_by_date_def str_def)
  from a b c show ?thesis by blast
qed

theorem grouping_is_stable_witness:
  "map_of (group_commits_by_date
     [\<lparr>hash = str ''a1'', date = str ''2024-01-02'', message = str ''first''\<rparr>,
      \<lparr>hash = str ''b2'', date = str ''2024-01-01'', message = str ''second''\<rparr>,
      \<lparr>hash = str ''c3'', date = str ''2024-01-02'', message = str ''third''\<rparr>]) (str ''2024-01-02'') =
     Some [str ''first'', str ''third''] \<and>
   length (group_commits_by_date
     [\<lparr>hash = str ''a1'', date = str ''2024-01-02'', message = str ''first''\<rparr>,
      \<lparr>hash = str ''b2'', date = str ''2024-01-01'', message = str ''second''\<rparr>,
      \<lparr>hash = str ''c3'', date = str ''2024-01-02'', message = str ''third''\<rparr>]) = 2"
  using grouping_is_stable [of
     "[\<lparr>hash = str ''a1'', date = str ''2024-01-02'', message = str ''first''\<rparr>,
      \<lparr>hash = str ''b2'', date = str ''2024-01-01'', message = str ''second''\<rparr>,
      \<lparr>hash = str ''c3'', date = str ''2024-01-02'', message = str ''third''\<rparr>]" "str ''2024-01-02''"
     "str ''a1''" "str ''first''" "str ''b2''" "str ''second''" "str ''c3''" "str ''third''"]
  by (simp add: str_def)

section \<open>Properties of filtering\<close>

lemma date_less_chain: "\<not> date_less c s \<Longrightarrow> date_less e s \<Longrightarrow> date_less e c"
  by (auto simp: date_less_def)

lemma filter_commits_loop_parsed:
  "\<forall>c\<in>set cs. parse (date c) \<noteq> None \<Longrightarrow>
   filter_commits_loop parse cs s e acc =
     Inr (acc @ filter (\<lambda>c. \<not> (case s of None \<Rightarrow> False | Some sd \<Rightarrow> date_less (the (parse (date c))) sd) \<and>
                             \<not> (case e of None \<Rightarrow> False | Some ed \<Rightarrow> date_less ed (the (parse (date c))))) cs)"
proof (induction cs arbitrary: acc)
  case Nil
  show ?case by simp
next
  case (Cons c cs)
  from Cons.prems obtain cd where cd: "parse (date c) = Some cd" by auto
  have rest: "\<forall>c\<in>set cs. parse (date c) \<noteq> None" using Cons.prems by simp
  show ?case
    by (auto simp: cd Cons.IH [OF rest] split: option.splits)
qed

lemma filter_commits_loop_unparsed:
  "\<exists>c\<in>set cs. parse (date c) = None \<Longrightarrow> filter_commits_loop parse cs s e acc = Inl ValueError"
proof (induction cs arbitrary: acc)
  case Nil
  then show ?case by simp
next
  case (Cons c cs)
  show ?case
  proof (cases "parse (date c)")
    case None
    then show ?thesis by simp
  next
    case (Some cd)
    with Cons.prems have "\<exists>c\<in>set cs. parse (date c) = None" by auto
    then show ?thesis using Some by (simp add: Cons.IH)
  qed
qed

lemma filter_commits_unbounded:
  "\<forall>c\<in>set commits. parse (date c) \<noteq> None \<Longrightarrow> filter_commits parse commits None None = Inr commits"
  by (simp add: filter_commits_def filter_commits_loop_parsed)

lemma sample_commits_parse: "\<forall>c\<in>set sample_commits. sample_strptime (date c) \<noteq> None"
  by (simp add: sample_commits_def sample_strptime_def str_def isdigit_def decimal_def
      days_in_month_def is_leap_def)

text \<open>
  C3. When every date parses, filtering without bounds returns the input unchanged, in
  the same order, and filtering with a start after the end returns the empty list,
  not an error.
\<close>

theorem filter_commits_bounds:
  assumes "\<forall>c\<in>set commits. parse (date c) \<noteq> None"
  shows "filter_commits parse commits None None = Inr commits \<and>
         (date_less e s \<longrightarrow> filter_commits parse commits (Some s) (Some e) = Inr [])"
proof -
  have a: "filter_commits parse commits None None = Inr commits"
    by (rule filter_commits_unbounded [OF assms])
  have b: "filter_commits parse commits (Some s) (Some e) = Inr []" if "date_less e s"
  proof -
    have "\<And>c. \<not> date_less c s \<Longrightarrow> date_less e c" using that by (rule date_less_chain [rotated])
    then show ?thesis
      by (auto simp: filter_commits_def filter_commits_loop_parsed [OF assms] filter_empty_conv)
  qed
  from a b show ?thesis by blast
qed

theorem filter_commits_bounds_witness:
  "filter_commits sample_strptime sample_commits None None = Inr sample_commits \<and>
   date_less (Date 2024 1 1) (Date 2024 1 2) \<and>
   filter_commits sample_strptime sample_commits (Some (Date 2024 1 2)) (Some (Date 2024 1 1)) = Inr []"
proof -
  have "date_less (Date 2024 1 1) (Date 2024 1 2)" by (simp add: date_less_def)
  then show ?thesis
    using filter_commits_bounds [OF sample_commits_parse, of "Date 2024 1 1" "Date 2024 1 2"] by simp
qed

section \<open>Properties of point extraction\<close>

lemma re_match_bullet_iff: "re_match_bullet l = has_bullet_prefix l"
  by (auto simp: re_match_bullet_def has_bullet_prefix_def split: list.splits)

lemma marker_is_one_character:
  "has_bullet_prefix l \<Longrightarrow> lstrip_chars (str ''*-'') l = tl l"
  by (auto simp: has_bullet_prefix_def lstrip_chars_def str_def isspace_def split: list.splits)

lemma extract_loop_eq:
  "extract_loop ls acc =
     acc @ map (\<lambda>l. strip (tl (strip l))) (filter (\<lambda>l. has_bullet_prefix (strip l)) ls)"
  by (induction ls arbitrary: acc) (simp_all add: Let_def re_match_bullet_iff marker_is_one_character)

lemmas str_eval = str_def strip_def lstrip_def rstrip_def isspace_def islinebreak_def

text \<open>
  C6 (as amended). Point extraction gives \<open>["did X", "did Y"]\<close> on
  \<open>"- did X\n- did Y\nnote"\<close>, \<open>["just prose"]\<close> on \<open>"just prose"\<close> and \<open>[]\<close> on
  \<open>""\<close>. In general it keeps exactly the lines that, once trimmed, start with a \<open>*\<close>
  or \<open>-\<close> followed by whitespace, each without its marker and trimmed again; when no
  line is kept it gives the whole trimmed summary as one point if the trimmed summary
  is not empty, and no point otherwise.
\<close>

theorem extract_task_points_spec:
  "extract_task_points (str ''- did X'' @ [0x0A] @ str ''- did Y'' @ [0x0A] @ str ''note'') =
     [str ''did X'', str ''did Y''] \<and>
   extract_task_points (str ''just prose'') = [str ''just prose''] \<and>
   extract_task_points [] = [] \<and>
   extract_task_points summary =
     (let points = map (\<lambda>l. strip (tl (strip l)))
                     (filter (\<lambda>l. has_bullet_prefix (strip l)) (splitlines summary))
      in if points \<noteq> [] then points else if strip summary \<noteq> [] then [strip summary] else [])"
proof -
  have gen: "\<And>s. extract_task_points s =
     (let points = map (\<lambda>l. strip (tl (strip l)))
                     (filter (\<lambda>l. has_bullet_prefix (strip l)) (splitlines s))
      in if points \<noteq> [] then points else if strip s \<noteq> [] then [strip s] else [])"
    by (simp add: extract_task_points_def extract_loop_eq Let_def)
  have a: "extract_task_points (str ''- did X'' @ [0x0A] @ str ''- did Y'' @ [0x0A] @ str ''note'') =
     [str ''did X'', str ''did Y'']"
    unfolding gen by (simp add: str_eval has_bullet_prefix_def)
  have b: "extract_task_points (str ''just prose'') = [str ''just prose'']"
    unfolding gen by (simp add: str_eval has_bullet_prefix_def)
  have c: "extract_task_points [] = []"
    unfolding gen by (simp add: str_eval)
  from a b c gen [of summary] show ?thesis by blast
qed

theorem extract_task_points_spec_witness:
  "extract_task_points (str ''Done:'' @ [0x0A] @ str ''  * parser fixed  '' @ [0x0D, 0x0A] @ str ''-no space'') =
     [str ''parser fixed'']"
  using extract_task_points_spec
    [of "str ''Done:'' @ [0x0A] @ str ''  * parser fixed  '' @ [0x0D, 0x0A] @ str ''-no space''"]
  by (simp add: str_eval has_bullet_prefix_def)

text \<open>
  C6 as stated fails: a summary of one space is not empty and none of its lines
  matches, yet the result is the empty list, not the trimmed summary as one point.
\<close>

theorem blank_summary_counterexample:
  "str '' '' \<noteq> [] \<and>
   extract_loop (splitlines (str '' '')) [] = [] \<and>
   strip (str '' '') = [] \<and>
   extract_task_points (str '' '') = [] \<and>
   extract_task_points (str '' '') \<noteq> [strip (str '' '')]"
  by (simp add: extract_task_points_def str_eval re_match_bullet_def)

section \<open>Properties of the summarizer client and the report writer\<close>








































section \<open>Properties of the top-level flow\<close>

lemma main_after_fetch:
  assumes "prompt_user L w = Return (repo_path, start_date, end_date, api_key) w1"
    and "fetch_commits L w1 repo_path = Return commits w2"
  shows "main L w =
     (if commits = [] then Exit 1 (py_print (str ''No commits found.'') w2)
       else
         (case filter_commits (strptime L) commits start_date end_date of
            Inl e \<Rightarrow> Raise e w2
          | Inr filtered_commits \<Rightarrow>
              if filtered_commits = []
              then Exit 0 (py_print (str ''No commits found for the specified date or range.'') w2)
              else analyze_commits L w2 filtered_commits api_key repo_path
                     (case start_date of Some d \<Rightarrow> DateV d | None \<Rightarrow> StrV (date (hd filtered_commits)))
                     (case end_date of Some d \<Rightarrow> DateV d | None \<Rightarrow> StrV (date (last filtered_commits)))))"
  by (simp add: main_def res_bind_def assms)

lemmas eval_defs = prompt_user_def prompt_repo_path_def load_repo_paths_def REPO_LIST_FILE_def res_bind_def
  py_input_def py_print_def new_repo_path_def save_repo_path_def prompt_dates_def prompt_api_key_def
  load_dotenv_key_def os_path_join_def startswith_def strip_def lstrip_def rstrip_def isspace_def str_def
  sample_world_def sample_lib_def Let_def except_Exception_def

lemma sample_log_commits:
  "fetch_commits_loop (split_all 0x0A (strip sample_log)) [] = sample_commits"
  by (simp add: sample_log_def sample_commits_def str_def strip_def lstrip_def rstrip_def isspace_def
      fetch_commits_loop_eq fields_of_line_def del: fetch_commits_loop.simps)

lemma sample_prompt_all_history:
  "\<exists>w1. prompt_user sample_lib (sample_world [str ''/home/dev/project'', str ''1''] log_result answers) =
          Return (str ''/home/dev/project'', None, None, str ''secret'') w1 \<and>
        git_log w1 (str ''/home/dev/project'') = log_result \<and>
        files w1 = [REPO_LIST_FILE \<mapsto> str ''/home/dev/project'' @ [0x0A]]"
  by (simp add: eval_defs)

lemma sample_fetch:
  "git_log w (str ''/home/dev/project'') = Inr sample_log \<Longrightarrow>
   fetch_commits L w (str ''/home/dev/project'') = Return sample_commits w"
  by (simp add: fetch_commits_def sample_log_commits) (simp add: str_def)

text \<open>
  C7. A commit whose date does not parse makes \<open>filter_commits\<close> raise, whatever the
  bounds, and nothing between the filter and the end of the process catches it: the
  top-level flow ends with that exception.
\<close>

theorem unparsed_date_raises:
  assumes "\<exists>c\<in>set commits. strptime L (date c) = None"
  shows "filter_commits (strptime L) commits start_date end_date = Inl ValueError \<and>
         (prompt_user L w = Return (repo_path, start_date, end_date, api_key) w1 \<longrightarrow>
          fetch_commits L w1 repo_path = Return commits w2 \<longrightarrow>
          main L w = Raise ValueError w2)"
proof -
  have a: "filter_commits (strptime L) commits start_date end_date = Inl ValueError"
    by (simp add: filter_commits_def filter_commits_loop_unparsed [OF assms])
  have ne: "commits \<noteq> []" using assms by auto
  show ?thesis
    using a ne by (auto simp: main_after_fetch)
qed

theorem unparsed_date_raises_witness:
  "\<exists>w2. main sample_lib
           (sample_world [str ''/home/dev/project'', str ''1''] (Inr (str ''d4|yesterday|Broken'')) refused) =
         Raise ValueError w2"
proof -
  let ?log = "str ''d4|yesterday|Broken''"
  let ?cs = "[\<lparr>hash = str ''d4'', date = str ''yesterday'', message = str ''Broken''\<rparr>]"
  from sample_prompt_all_history [of "Inr ?log" refused] obtain w1 where
    p: "prompt_user sample_lib (sample_world [str ''/home/dev/project'', str ''1''] (Inr ?log) refused) =
          Return (str ''/home/dev/project'', None, None, str ''secret'') w1"
    and g: "git_log w1 (str ''/home/dev/project'') = Inr ?log"
    by blast
  have "fetch_commits_loop (split_all 0x0A (strip ?log)) [] = ?cs"
    by (simp add: str_def strip_def lstrip_def rstrip_def isspace_def
        fetch_commits_loop_eq fields_of_line_def del: fetch_commits_loop.simps)
  then have fetch: "fetch_commits sample_lib w1 (str ''/home/dev/project'') = Return ?cs w1"
    by (simp add: fetch_commits_def g) (simp add: str_def)
  have bad: "\<exists>c\<in>set ?cs. strptime sample_lib (date c) = None"
    by (simp add: sample_lib_def sample_strptime_def str_def)
  from unparsed_date_raises [OF bad] p fetch
  show ?thesis by blast
qed




lemma main_exit_of_prompt: "prompt_user L w = Exit n w' \<Longrightarrow> main L w = Exit n w'"
  by (simp add: main_def res_bind_def)

lemma prompt_user_exit_of_repo: "prompt_repo_path L w = Exit n w' \<Longrightarrow> prompt_user L w = Exit n w'"
  by (simp add: prompt_user_def res_bind_def)

lemma py_print_fields:
  "stdin (py_print s w) = stdin w" "dirs (py_print s w) = dirs w" "files (py_print s w) = files w"
  "cwd (py_print s w) = cwd w" "environ (py_print s w) = environ w"
  by (simp_all add: py_print_def)

lemma listing_fields:
  "stdin (foldl (\<lambda>w (idx, p). py_print (str_nat idx @ str ''. '' @ p) w) w0 xs) = stdin w0 \<and>
   dirs (foldl (\<lambda>w (idx, p). py_print (str_nat idx @ str ''. '' @ p) w) w0 xs) = dirs w0"
  by (induction xs arbitrary: w0) (auto simp: py_print_fields)

lemma not_a_number_exits:
  assumes "load_repo_paths w \<noteq> []" "stdin w = typed # rest" "int_of L (strip typed) = None"
  shows "\<exists>w'. prompt_repo_path L w = Exit 1 w'"
  using assms
  by (simp add: prompt_repo_path_def Let_def res_bind_def py_input_def py_print_fields listing_fields)

lemma outside_menu_exits:
  assumes "load_repo_paths w \<noteq> []" "stdin w = typed # rest" "int_of L (strip typed) = Some n"
    and "n < 1 \<or> int (length (load_repo_paths w)) + 1 < n"
  shows "\<exists>w'. prompt_repo_path L w = Exit 1 w'"
  using assms
  by (auto simp: prompt_repo_path_def Let_def res_bind_def py_input_def py_print_fields listing_fields)

lemma missing_directory_exits:
  assumes "load_repo_paths w = []" "stdin w = typed # rest" "strip typed \<notin> dirs w"
  shows "\<exists>w'. prompt_repo_path L w = Exit 1 w'"
  using assms by (simp add: prompt_repo_path_def Let_def res_bind_def py_input_def new_repo_path_def)

lemma missing_new_directory_exits:
  assumes "load_repo_paths w \<noteq> []" "stdin w = choice # typed # rest"
    and "int_of L (strip choice) = Some (int (length (load_repo_paths w)) + 1)"
    and "strip typed \<notin> dirs w"
  shows "\<exists>w'. prompt_repo_path L w = Exit 1 w'"
  using assms
  by (simp add: prompt_repo_path_def Let_def res_bind_def py_input_def py_print_fields listing_fields
      new_repo_path_def except_Exception_def)

lemma menu_keeps:
  "stdin (foldl (\<lambda>w s. py_print s w) w0 xs) = stdin w0 \<and>
   files (foldl (\<lambda>w s. py_print s w) w0 xs) = files w0 \<and>
   cwd (foldl (\<lambda>w s. py_print s w) w0 xs) = cwd w0 \<and>
   environ (foldl (\<lambda>w s. py_print s w) w0 xs) = environ w0"
  by (induction xs arbitrary: w0) (simp_all add: py_print_fields)

lemma invalid_date_exits:
  assumes "prompt_repo_path L w = Return repo_path w1" "stdin w1 = choice # typed # rest"
    and "strip choice = str ''2''" "strptime L (strip typed) = None"
  shows "\<exists>w'. prompt_user L w = Exit 1 w'"
  using assms
  by (simp add: prompt_user_def Let_def res_bind_def py_input_def py_print_fields prompt_dates_def)

lemma invalid_range_exits:
  assumes "prompt_repo_path L w = Return repo_path w1" "stdin w1 = choice # typed1 # typed2 # rest"
    and "strip choice = str ''3''" "strptime L (strip typed1) = None \<or> strptime L (strip typed2) = None"
  shows "\<exists>w'. prompt_user L w = Exit 1 w'"
proof -
  have "str ''3'' \<noteq> str ''2''" by (simp add: str_def)
  then show ?thesis
    using assms
    by (auto simp: prompt_user_def Let_def res_bind_def py_input_def py_print_fields prompt_dates_def
        split: option.splits)
qed

lemma prompt_dates_no_input:
  "c \<notin> {str ''2'', str ''3'', str ''5''} \<Longrightarrow> \<exists>sd ed. prompt_dates L c w = Return (sd, ed) w"
  by (simp add: prompt_dates_def)

lemma missing_credential_exits:
  assumes "prompt_repo_path L w = Return repo_path w1" "stdin w1 = choice # typed # rest"
    and "strip choice \<notin> {str ''2'', str ''3'', str ''5''}"
    and "load_dotenv_key w1 (str ''GEMINI_API_KEY'') \<in> {None, Some []}"
    and "environ w1 (str ''GEMINI_API_KEY'') \<in> {None, Some []}"
    and "strip typed = []"
  shows "\<exists>w'. prompt_user L w = Exit 1 w'"
proof -
  let ?w2 = "foldl (\<lambda>w s. py_print s w) w1
                  [str ''Select analysis type:'', str ''1. All history'', str ''2. Specific date'',
                   str ''3. Date range'', str ''4. Today'', str ''5. Yesterday'']"
  let ?w3 = "?w2\<lparr>stdin := typed # rest, console := console ?w2 @ str ''Enter choice (1/2/3/4/5): ''\<rparr>"
  have i: "py_input (str ''Enter choice (1/2/3/4/5): '') ?w2 = Return choice ?w3"
    using assms(2) menu_keeps [of w1] by (simp add: py_input_def del: foldl_Cons)
  obtain sd ed where d: "prompt_dates L (strip choice) ?w3 = Return (sd, ed) ?w3"
    using prompt_dates_no_input [OF assms(3)] by blast
  have k: "load_dotenv_key ?w3 (str ''GEMINI_API_KEY'') = load_dotenv_key w1 (str ''GEMINI_API_KEY'')"
    using menu_keeps [of w1] by (simp add: load_dotenv_key_def del: foldl_Cons)
  have e: "environ ?w3 (str ''GEMINI_API_KEY'') = environ w1 (str ''GEMINI_API_KEY'')"
    using menu_keeps [of w1] by (simp del: foldl_Cons)
  have "\<exists>w'. prompt_api_key ?w3 = Exit 1 w'"
    using assms(4,5,6) unfolding prompt_api_key_def Let_def k e
    by (auto simp: res_bind_def py_input_def simp del: foldl_Cons)
  then show ?thesis
    using assms(1) i d by (auto simp: prompt_user_def Let_def res_bind_def simp del: foldl_Cons)
qed

lemma sample_prompt_date:
  "\<exists>w1. prompt_user sample_lib
           (sample_world [str ''/home/dev/project'', str ''2'', str ''2023-05-05''] log_result answers) =
          Return (str ''/home/dev/project'', Some (Date 2023 5 5), Some (Date 2023 5 5), str ''secret'') w1 \<and>
        git_log w1 (str ''/home/dev/project'') = log_result"
  by (simp add: eval_defs sample_strptime_def isdigit_def decimal_def days_in_month_def is_leap_def)

lemma sample_nowhere:
  "load_repo_paths (sample_world [str ''/nowhere''] log_result answers) = [] \<and>
   stdin (sample_world [str ''/nowhere''] log_result answers) = [str ''/nowhere''] \<and>
   strip (str ''/nowhere'') \<notin> dirs (sample_world [str ''/nowhere''] log_result answers)"
  by (simp add: load_repo_paths_def REPO_LIST_FILE_def sample_world_def str_def strip_def lstrip_def
      rstrip_def isspace_def)

text \<open>
  C9. The top-level flow exits with code 1 when the commit source returns no commits at
  all and with code 0 when there are commits but none in the filtered range. It also
  exits with code 1 on invalid input (a menu choice that is not a number or not in
  the menu, a date that does not parse), on a missing directory and on a missing
  credential.
\<close>

theorem exit_codes:
  "(prompt_user L w = Return (repo_path, start_date, end_date, api_key) w1 \<longrightarrow>
    fetch_commits L w1 repo_path = Return [] w2 \<longrightarrow>
      main L w = Exit 1 (py_print (str ''No commits found.'') w2)) \<and>
   (prompt_user L w = Return (repo_path, start_date, end_date, api_key) w1 \<longrightarrow>
    fetch_commits L w1 repo_path = Return commits w2 \<longrightarrow> commits \<noteq> [] \<longrightarrow>
    filter_commits (strptime L) commits start_date end_date = Inr [] \<longrightarrow>
      main L w = Exit 0 (py_print (str ''No commits found for the specified date or range.'') w2)) \<and>
   (load_repo_paths w \<noteq> [] \<longrightarrow> stdin w = typed # rest \<longrightarrow> int_of L (strip typed) = None \<longrightarrow>
      (\<exists>w'. main L w = Exit 1 w')) \<and>
   (load_repo_paths w \<noteq> [] \<longrightarrow> stdin w = typed # rest \<longrightarrow> int_of L (strip typed) = Some n \<longrightarrow>
    n < 1 \<or> int (length (load_repo_paths w)) + 1 < n \<longrightarrow>
      (\<exists>w'. main L w = Exit 1 w')) \<and>
   (load_repo_paths w = [] \<longrightarrow> stdin w = typed # rest \<longrightarrow> strip typed \<notin> dirs w \<longrightarrow>
      (\<exists>w'. main L w = Exit 1 w')) \<and>
   (load_repo_paths w \<noteq> [] \<longrightarrow> stdin w = typed # typed2 # rest \<longrightarrow>
    int_of L (strip typed) = Some (int (length (load_repo_paths w)) + 1) \<longrightarrow> strip typed2 \<notin> dirs w \<longrightarrow>
      (\<exists>w'. main L w = Exit 1 w')) \<and>
   (prompt_repo_path L w = Return repo_path w1 \<longrightarrow> stdin w1 = typed # typed2 # rest \<longrightarrow>
    strip typed = str ''2'' \<longrightarrow> strptime L (strip typed2) = None \<longrightarrow>
      (\<exists>w'. main L w = Exit 1 w')) \<and>
   (prompt_repo_path L w = Return repo_path w1 \<longrightarrow> stdin w1 = typed # typed2 # typed3 # rest \<longrightarrow>
    strip typed = str ''3'' \<longrightarrow> strptime L (strip typed2) = None \<or> strptime L (strip typed3) = None \<longrightarrow>
      (\<exists>w'. main L w = Exit 1 w')) \<and>
   (prompt_repo_path L w = Return repo_path w1 \<longrightarrow> stdin w1 = typed # typed2 # rest \<longrightarrow>
    strip typed \<notin> {str ''2'', str ''3'', str ''5''} \<longrightarrow>
    load_dotenv_key w1 (str ''GEMINI_API_KEY'') \<in> {None, Some []} \<longrightarrow>
    environ w1 (str ''GEMINI_API_KEY'') \<in> {None, Some []} \<longrightarrow> strip typed2 = [] \<longrightarrow>
      (\<exists>w'. main L w = Exit 1 w'))"
proof -
  have up: "\<And>n w'. prompt_repo_path L w = Exit n w' \<Longrightarrow> main L w = Exit n w'"
    by (simp add: prompt_user_exit_of_repo main_exit_of_prompt)
  have a: "main L w = Exit 1 (py_print (str ''No commits found.'') w2)"
    if "prompt_user L w = Return (repo_path, start_date, end_date, api_key) w1"
      "fetch_commits L w1 repo_path = Return [] w2"
    using that by (simp add: main_after_fetch)
  have b: "main L w = Exit 0 (py_print (str ''No commits found for the specified date or range.'') w2)"
    if "prompt_user L w = Return (repo_path, start_date, end_date, api_key) w1"
      "fetch_commits L w1 repo_path = Return commits w2" "commits \<noteq> []"
      "filter_commits (strptime L) commits start_date end_date = Inr []"
    using that by (simp add: main_after_fetch)
  have c: "\<exists>w'. main L w = Exit 1 w'"
    if "load_repo_paths w \<noteq> []" "stdin w = typed # rest" "int_of L (strip typed) = None"
    using not_a_number_exits [OF that] up by blast
  have d: "\<exists>w'. main L w = Exit 1 w'"
    if "load_repo_paths w \<noteq> []" "stdin w = typed # rest" "int_of L (strip typed) = Some n"
      "n < 1 \<or> int (length (load_repo_paths w)) + 1 < n"
    using outside_menu_exits [OF that] up by blast
  have e: "\<exists>w'. main L w = Exit 1 w'"
    if "load_repo_paths w = []" "stdin w = typed # rest" "strip typed \<notin> dirs w"
    using missing_directory_exits [OF that] up by blast
  have f: "\<exists>w'. main L w = Exit 1 w'"
    if "load_repo_paths w \<noteq> []" "stdin w = typed # typed2 # rest"
      "int_of L (strip typed) = Some (int (length (load_repo_paths w)) + 1)" "strip typed2 \<notin> dirs w"
    using missing_new_directory_exits [OF that] up by blast
  have g: "\<exists>w'. main L w = Exit 1 w'"
    if "prompt_repo_path L w = Return repo_path w1" "stdin w1 = typed # typed2 # rest"
      "strip typed = str ''2''" "strptime L (strip typed2) = None"
    using invalid_date_exits [OF that] main_exit_of_prompt by blast
  have h: "\<exists>w'. main L w = Exit 1 w'"
    if "prompt_repo_path L w = Return repo_path w1" "stdin w1 = typed # typed2 # typed3 # rest"
      "strip typed = str ''3''" "strptime L (strip typed2) = None \<or> strptime L (strip typed3) = None"
    using invalid_range_exits [OF that] main_exit_of_prompt by blast
  have i: "\<exists>w'. main L w = Exit 1 w'"
    if "prompt_repo_path L w = Return repo_path w1" "stdin w1 = typed # typed2 # rest"
      "strip typed \<notin> {str ''2'', str ''3'', str ''5''}"
      "load_dotenv_key w1 (str ''GEMINI_API_KEY'') \<in> {None, Some []}"
      "environ w1 (str ''GEMINI_API_KEY'') \<in> {None, Some []}" "strip typed2 = []"
    using missing_credential_exits [OF that] main_exit_of_prompt by blast
  show ?thesis
    apply (intro conjI impI)
    subgoal by (rule a)
    subgoal by (rule b)
    subgoal by (rule c)
    subgoal by (rule d)
    subgoal by (rule e)
    subgoal by (rule f)
    subgoal by (rule g)
    subgoal by (rule h)
    subgoal by (rule i)
    done
qed

theorem exit_codes_witness:
  "(\<exists>w'. main sample_lib (sample_world [str ''/home/dev/project'', str ''1''] (Inr []) refused) = Exit 1 w') \<and>
   (\<exists>w'. main sample_lib
           (sample_world [str ''/home/dev/project'', str ''2'', str ''2023-05-05''] (Inr sample_log) refused) =
         Exit 0 w') \<and>
   (\<exists>w'. main sample_lib (sample_world [str ''/nowhere''] (Inr sample_log) refused) = Exit 1 w')"
proof -
  let ?p = "str ''/home/dev/project''"
  let ?W1 = "sample_world [?p, str ''1''] (Inr []) refused"
  let ?W2 = "sample_world [?p, str ''2'', str ''2023-05-05''] (Inr sample_log) refused"
  let ?W3 = "sample_world [str ''/nowhere''] (Inr sample_log) refused"
  from sample_prompt_all_history [of "Inr []" refused] obtain w1 where
    p1: "prompt_user sample_lib ?W1 = Return (?p, None, None, str ''secret'') w1"
    and g1: "git_log w1 ?p = Inr []" by blast
  have f1: "fetch_commits sample_lib w1 ?p = Return [] w1"
    by (simp add: fetch_commits_def g1 strip_def lstrip_def rstrip_def) (simp add: str_def)
  note first = exit_codes [THEN conjunct1, rule_format]
  note second = exit_codes [THEN conjunct2, THEN conjunct1, rule_format]
  note fifth = exit_codes [THEN conjunct2, THEN conjunct2, THEN conjunct2, THEN conjunct2, THEN conjunct1,
      rule_format]
  have "main sample_lib ?W1 = Exit 1 (py_print (str ''No commits found.'') w1)"
    using p1 f1 by (rule first)
  then have a: "\<exists>w'. main sample_lib ?W1 = Exit 1 w'" by (rule exI)
  from sample_prompt_date [of "Inr sample_log" refused] obtain w2 where
    p2: "prompt_user sample_lib ?W2 = Return (?p, Some (Date 2023 5 5), Some (Date 2023 5 5), str ''secret'') w2"
    and g2: "git_log w2 ?p = Inr sample_log" by blast
  have ne: "sample_commits \<noteq> []" by (simp add: sample_commits_def)
  have flt: "filter_commits (strptime sample_lib) sample_commits (Some (Date 2023 5 5)) (Some (Date 2023 5 5)) = Inr []"
    by (simp add: filter_commits_def sample_commits_def sample_lib_def sample_strptime_def str_def
        isdigit_def decimal_def days_in_month_def is_leap_def date_less_def)
  have "main sample_lib ?W2 =
          Exit 0 (py_print (str ''No commits found for the specified date or range.'') w2)"
    using p2 sample_fetch [OF g2] ne flt by (rule second)
  then have b: "\<exists>w'. main sample_lib ?W2 = Exit 0 w'" by (rule exI)
  note n = sample_nowhere [of "Inr sample_log" refused]
  have c: "\<exists>w'. main sample_lib ?W3 = Exit 1 w'"
    using n [THEN conjunct1] n [THEN conjunct2, THEN conjunct1] n [THEN conjunct2, THEN conjunct2]
    by (rule fifth)
  from a b c show ?thesis by (intro conjI)
qed

end
